theory Spec2Isabelle
  imports Main "HOL-Library.DAList"
begin

section \<open>The AWS Lambda middleware of traefik-aws-lambda-plugin (src/main.go)\<close>

text \<open>
  The plugin turns an inbound HTTP request into the JSON envelope a load balancer would hand
  to a Lambda function, invokes the function, and writes the returned envelope onto the
  outbound HTTP response. This theory embeds the functions of \<^verbatim>\<open>src/main.go\<close> and proves the
  properties of the specification about them.

  Go strings and byte slices are sequences of bytes; an Isabelle \<^typ>\<open>char\<close> is one byte, so
  both are of type \<^typ>\<open>string\<close>.
\<close>

subsection \<open>Values behind \<^verbatim>\<open>interface{}\<close> and their reflected kinds\<close>

text \<open>
  \<^verbatim>\<open>reflect.Kind\<close>, without \<^verbatim>\<open>Invalid\<close>: \<^verbatim>\<open>reflect.TypeOf\<close> of a non-nil interface value never
  has that kind. The constructors carry a leading K.
\<close>

datatype Kind =
    KBool
  | KInt | KInt8 | KInt16 | KInt32 | KInt64
  | KUint | KUint8 | KUint16 | KUint32 | KUint64 | KUintptr
  | KFloat32 | KFloat64
  | KComplex64 | KComplex128
  | KArray | KChan | KFunc | KInterface | KMap | KPointer
  | KSlice | KString | KStruct | KUnsafePointer

text \<open>The five signed and the five unsigned integer types that have a \<^verbatim>\<open>case\<close> in \<^verbatim>\<open>valueToString\<close>.\<close>

datatype IntType = TInt | TInt8 | TInt16 | TInt32 | TInt64

datatype UintType = TUint | TUint8 | TUint16 | TUint32 | TUint64

text \<open>The kinds whose values the program never looks into.\<close>

datatype OpaqueKind =
    OBool | OUintptr | OComplex64 | OComplex128 | OArray | OChan | OFunc | OInterface
  | OMap | OPointer | OStruct | OUnsafePointer

text \<open>A Go type, as far as \<^verbatim>\<open>Kind()\<close> and \<^verbatim>\<open>Elem()\<close> of a slice type see it.\<close>

datatype Type =
    IntT IntType
  | UintT UintType
  | Float32T
  | Float64T
  | StringT
  | SliceT Type
  | OpaqueT OpaqueKind

fun IntKind :: "IntType \<Rightarrow> Kind" where
  "IntKind TInt = KInt"
| "IntKind TInt8 = KInt8"
| "IntKind TInt16 = KInt16"
| "IntKind TInt32 = KInt32"
| "IntKind TInt64 = KInt64"

fun UintKind :: "UintType \<Rightarrow> Kind" where
  "UintKind TUint = KUint"
| "UintKind TUint8 = KUint8"
| "UintKind TUint16 = KUint16"
| "UintKind TUint32 = KUint32"
| "UintKind TUint64 = KUint64"

fun OpaqueKindOf :: "OpaqueKind \<Rightarrow> Kind" where
  "OpaqueKindOf OBool = KBool"
| "OpaqueKindOf OUintptr = KUintptr"
| "OpaqueKindOf OComplex64 = KComplex64"
| "OpaqueKindOf OComplex128 = KComplex128"
| "OpaqueKindOf OArray = KArray"
| "OpaqueKindOf OChan = KChan"
| "OpaqueKindOf OFunc = KFunc"
| "OpaqueKindOf OInterface = KInterface"
| "OpaqueKindOf OMap = KMap"
| "OpaqueKindOf OPointer = KPointer"
| "OpaqueKindOf OStruct = KStruct"
| "OpaqueKindOf OUnsafePointer = KUnsafePointer"

text \<open>\<^verbatim>\<open>Type.Kind()\<close>.\<close>

fun KindOf :: "Type \<Rightarrow> Kind" where
  "KindOf (IntT t) = IntKind t"
| "KindOf (UintT t) = UintKind t"
| "KindOf Float32T = KFloat32"
| "KindOf Float64T = KFloat64"
| "KindOf StringT = KString"
| "KindOf (SliceT t) = KSlice"
| "KindOf (OpaqueT k) = OpaqueKindOf k"

text \<open>
  A floating-point number: finite (sign, mantissa \<open>m\<close>, exponent \<open>e\<close>, of value
  \<open>\<plusminus> m \<sqdot> 2\<^sup>e\<close>), infinite with a sign, or not a number.
\<close>

datatype float = Finite bool nat int | Infinity bool | NaN

text \<open>
  A non-nil value held in an \<^verbatim>\<open>interface{}\<close>. An integer carries its Go type and its value, a
  slice the type of its elements and the elements (all of that type), a value of any other
  kind only its kind. The program reaches \<^verbatim>\<open>valueToString\<close> and \<^verbatim>\<open>valuesToStrings\<close>, both
  unexported, from \<^verbatim>\<open>valuesToMap\<close> and \<^verbatim>\<open>valuesToMultiMap\<close> and from each other, never with a
  nil interface.
\<close>

datatype Value =
    IntV IntType int
  | UintV UintType nat
  | Float32V float
  | Float64V float
  | StringV string
  | SliceV Type "Value list"
  | OpaqueV OpaqueKind

text \<open>\<^verbatim>\<open>reflect.TypeOf\<close>.\<close>

fun TypeOf :: "Value \<Rightarrow> Type" where
  "TypeOf (IntV t i) = IntT t"
| "TypeOf (UintV t u) = UintT t"
| "TypeOf (Float32V x) = Float32T"
| "TypeOf (Float64V x) = Float64T"
| "TypeOf (StringV s) = StringT"
| "TypeOf (SliceV t xs) = SliceT t"
| "TypeOf (OpaqueV k) = OpaqueT k"

text \<open>A slice holds values of its element type only.\<close>

fun well_typed :: "Value \<Rightarrow> bool" where
  "well_typed (SliceV t xs) = (\<forall>x \<in> set xs. TypeOf x = t \<and> well_typed x)"
| "well_typed v = True"

text \<open>The conversion of a \<^verbatim>\<open>[]string\<close> to \<^verbatim>\<open>interface{}\<close> at a call.\<close>

definition strings :: "string list \<Rightarrow> Value" where
  "strings val = SliceV StringT (map StringV val)"

subsection \<open>The formatting functions of \<^verbatim>\<open>strconv\<close>\<close>

text \<open>The decimal digits of a natural number, most significant first, \<open>0\<close> for zero.\<close>

fun formatBits :: "nat \<Rightarrow> string" where
  "formatBits n =
     (if n < 10 then [''0123456789'' ! n]
      else formatBits (n div 10) @ [''0123456789'' ! (n mod 10)])"

declare formatBits.simps [simp del]

text \<open>\<^verbatim>\<open>strconv.FormatUint(u, 10)\<close> and \<^verbatim>\<open>strconv.FormatInt(i, 10)\<close>.\<close>

definition FormatUint :: "nat \<Rightarrow> string" where
  "FormatUint u = formatBits u"

definition FormatInt :: "int \<Rightarrow> string" where
  "FormatInt i = (if i < 0 then ''-'' @ formatBits (nat (- i)) else formatBits (nat i))"

text \<open>
  \<^verbatim>\<open>strconv.FormatFloat(x, 'f', prec, bitSize)\<close>: the exact value of \<open>x\<close> in decimal, rounded to
  \<open>prec\<close> digits after the point, to the nearest, a tie to the even digit; the sign comes from
  the sign bit, so a negative zero prints its sign. The program passes as \<open>bitSize\<close> the
  size of the type the value came from, for which the conversion to that size changes
  nothing.
\<close>

definition roundedScaled :: "nat \<Rightarrow> int \<Rightarrow> nat \<Rightarrow> nat" where
  "roundedScaled m e prec =
     (let num = (if 0 \<le> e then m * 2 ^ nat e * 10 ^ prec else m * 10 ^ prec);
          den = (if 0 \<le> e then 1 else 2 ^ nat (- e));
          q = num div den;
          r = num mod den
      in if den < 2 * r \<or> (2 * r = den \<and> odd q) then q + 1 else q)"

definition fractionDigits :: "nat \<Rightarrow> nat \<Rightarrow> string" where
  "fractionDigits prec n =
     (let ds = formatBits n in replicate (prec - length ds) (CHR ''0'') @ ds)"

fun FormatFloat :: "float \<Rightarrow> nat \<Rightarrow> string" where
  "FormatFloat NaN prec = ''NaN''"
| "FormatFloat (Infinity neg) prec = (if neg then ''-Inf'' else ''+Inf'')"
| "FormatFloat (Finite neg m e) prec =
     (let n = roundedScaled m e prec
      in (if neg then ''-'' else '''') @ formatBits (n div 10 ^ prec)
         @ (if 0 < prec then ''.'' @ fractionDigits prec (n mod 10 ^ prec) else ''''))"

subsection \<open>Value coercion: \<^verbatim>\<open>valueToString\<close> and \<^verbatim>\<open>valuesToStrings\<close>\<close>

text \<open>\<^verbatim>\<open>reflect.ValueOf(f).Len()\<close> and \<^verbatim>\<open>.Index(i).Interface()\<close> read the elements of a slice.\<close>

fun elements :: "Value \<Rightarrow> Value list" where
  "elements (SliceV t xs) = xs"
| "elements v = []"

fun Elem :: "Type \<Rightarrow> Type option" where
  "Elem (SliceT t) = Some t"
| "Elem t = None"

lemma size_elements: "x \<in> set (elements f) \<Longrightarrow> size x < size f"
  by (cases f) (auto simp: less_Suc_eq_le size_list_estimation')

text \<open>
  The two functions call each other. The loop of \<^verbatim>\<open>valuesToStrings\<close> appends the string of
  every element whose conversion is valid and skips the others.
\<close>

function valueToString :: "Value \<Rightarrow> string \<times> bool"
  and valuesToStrings :: "Value \<Rightarrow> string list \<times> bool" where
  "valueToString f =
     (case f of
        IntV t i \<Rightarrow> (FormatInt i, True)
      | UintV t u \<Rightarrow> (FormatUint u, True)
      | Float32V x \<Rightarrow> (FormatFloat x 4, True)
      | Float64V x \<Rightarrow> (FormatFloat x 4, True)
      | StringV s \<Rightarrow> (s, True)
      | SliceV et xs \<Rightarrow>
          (let (t, valid) = valuesToStrings f
           in if \<not> valid \<or> length t \<noteq> 1 then ('''', False) else (t ! 0, True))
      | OpaqueV k \<Rightarrow> ('''', False))"
| "valuesToStrings f =
     (if KindOf (TypeOf f) \<noteq> KSlice then ([], False)
      else case Elem (TypeOf f) of
        None \<Rightarrow> ([], False)
      | Some et \<Rightarrow>
          if KindOf et \<in> set [KInt, KInt8, KInt16, KInt32, KInt64,
                               KUint, KUint8, KUint16, KUint32,
                               KFloat32, KFloat64, KString]
          then (map fst (filter snd (map valueToString (elements f))), True)
          else ([], False))"
  by pat_completeness auto
termination
  by (relation "measure (\<lambda>a. case a of Inl f \<Rightarrow> 2 * size f + 1 | Inr f \<Rightarrow> 2 * size f)")
     (auto dest: size_elements)

declare valueToString.simps [simp del] valuesToStrings.simps [simp del]

subsection \<open>Go maps\<close>

text \<open>
  A Go map is nil or holds entries with distinct keys. A \<^verbatim>\<open>range\<close> loop visits the entries in an
  order the language leaves open: here the order of the entry list, which is arbitrary.
  Ranging over a nil map visits nothing, and looking a key up in it finds nothing.
\<close>

datatype 'v gomap = NilMap | MakeMap "(string, 'v) alist"

fun entries :: "'v gomap \<Rightarrow> (string \<times> 'v) list" where
  "entries NilMap = []"
| "entries (MakeMap m) = DAList.impl_of m"

fun index :: "'v gomap \<Rightarrow> string \<Rightarrow> 'v option" where
  "index NilMap k = None"
| "index (MakeMap m) k = DAList.lookup m k"

subsection \<open>The inbound request\<close>

datatype error =
    Error string
  | CorruptInputError
  | NilPointerDereference

text \<open>
  A request body: the chunks its \<^verbatim>\<open>Read\<close> calls deliver, and how the reading ends, at the end of
  the data (\<open>None\<close>) or with an error. \<^verbatim>\<open>io.Copy\<close> hands every chunk to the writer and reports the
  error, if any.
\<close>

datatype Reader = Reader "string list" "error option"

fun Copy :: "Reader \<Rightarrow> error + string" where
  "Copy (Reader chunks None) = Inr (concat chunks)"
| "Copy (Reader chunks (Some err)) = Inl err"

text \<open>
  \<^verbatim>\<open>url.URL\<close>: the path, and the query string as the sequence of its \<^verbatim>\<open>key=value\<close> pairs,
  unescaped, in the order they stand in \<^verbatim>\<open>RawQuery\<close> (\<^verbatim>\<open>url.ParseQuery\<close> leaves out a pair it
  cannot unescape).
\<close>

record URL =
  Path :: string
  QueryPairs :: "(string \<times> string) list"

record Request =
  Method :: string
  URL :: URL
  Header :: "string list gomap"
  ContentLength :: int
  Body :: Reader

text \<open>
  \<^verbatim>\<open>URL.Query()\<close> parses the query string into a fresh, non-nil \<^verbatim>\<open>url.Values\<close>: for each pair in
  turn, \<^verbatim>\<open>m[key] = append(m[key], value)\<close>.
\<close>

fun parseQuery :: "(string, string list) alist \<Rightarrow> (string \<times> string) list \<Rightarrow> (string, string list) alist" where
  "parseQuery m [] = m"
| "parseQuery m ((key, val) # query) =
     parseQuery
       (DAList.update key ((case DAList.lookup m key of None \<Rightarrow> [] | Some vs \<Rightarrow> vs) @ [val]) m)
       query"

definition Query :: "URL \<Rightarrow> string list gomap" where
  "Query u = MakeMap (parseQuery DAList.empty (QueryPairs u))"

subsection \<open>\<^verbatim>\<open>encoding/base64\<close>, the standard encoding\<close>

definition encodeStd :: string where
  "encodeStd = ''ABCDEFGHIJKLMNOPQRSTUVWXYZabcdefghijklmnopqrstuvwxyz0123456789+/''"

text \<open>
  Three bytes become four characters of the alphabet; a last group of one or two bytes is
  padded with \<open>=\<close>. The streaming encoder of \<^verbatim>\<open>base64.NewEncoder\<close>, once closed, has written the
  encoding of all the bytes it was given.
\<close>

fun encode :: "nat list \<Rightarrow> string" where
  "encode [] = []"
| "encode [a] =
     [encodeStd ! (a div 4), encodeStd ! (a mod 4 * 16), CHR ''='', CHR ''='']"
| "encode [a, b] =
     [encodeStd ! (a div 4), encodeStd ! (a mod 4 * 16 + b div 16),
      encodeStd ! (b mod 16 * 4), CHR ''='']"
| "encode (a # b # c # src) =
     [encodeStd ! (a div 4), encodeStd ! (a mod 4 * 16 + b div 16),
      encodeStd ! (b mod 16 * 4 + c div 64), encodeStd ! (c mod 64)] @ encode src"

definition EncodeToString :: "string \<Rightarrow> string" where
  "EncodeToString src = encode (map of_char src)"

text \<open>The place of a character in the alphabet: the decode map.\<close>

fun position :: "char \<Rightarrow> string \<Rightarrow> nat option" where
  "position c [] = None"
| "position c (x # xs) =
     (if c = x then Some 0 else map_option Suc (position c xs))"

definition decodeMap :: "char \<Rightarrow> nat option" where
  "decodeMap c = position c encodeStd"

definition newline :: "char \<Rightarrow> bool" where
  "newline c \<longleftrightarrow> c = CHR 0x0A \<or> c = CHR 0x0D"

text \<open>The byte of the eight low bits of a number, lowest bit first.\<close>

definition byte :: "nat \<Rightarrow> char" where
  "byte n =
     Char (odd n) (odd (n div 2)) (odd (n div 4)) (odd (n div 8))
          (odd (n div 16)) (odd (n div 32)) (odd (n div 64)) (odd (n div 128))"

text \<open>
  The bytes of a quantum of four, three or two six-bit values; the bits left over in a
  shorter quantum are dropped (the standard encoding is not strict).
\<close>

definition quantum :: "nat list \<Rightarrow> string" where
  "quantum dbuf =
     (let val = foldl (\<lambda>acc d. acc * 64 + d) 0 (dbuf @ replicate (4 - length dbuf) 0)
      in take (length dbuf - 1) [byte (val div 65536), byte (val div 256), byte val])"

text \<open>
  \<^verbatim>\<open>DecodeString\<close>: line breaks are skipped; any other character outside the alphabet but the
  padding is an error, as are padding in the first half of a quantum, a single \<open>=\<close> where
  two are due, anything but line breaks after the padding, and an input that ends inside a
  quantum. \<open>dbuf\<close> holds the values of the quantum read so far. The position that Go's
  \<^verbatim>\<open>CorruptInputError\<close> carries is left out.
\<close>

fun decode :: "string \<Rightarrow> nat list \<Rightarrow> string \<Rightarrow> error + string" where
  "decode [] dbuf dst = (if dbuf = [] then Inr dst else Inl CorruptInputError)"
| "decode (c # src) dbuf dst =
     (case decodeMap c of
        Some out \<Rightarrow>
          if length dbuf = 3 then decode src [] (dst @ quantum (dbuf @ [out]))
          else decode src (dbuf @ [out]) dst
      | None \<Rightarrow>
          if newline c then decode src dbuf dst
          else if c \<noteq> CHR ''='' then Inl CorruptInputError
          else if length dbuf < 2 then Inl CorruptInputError
          else if length dbuf = 2 then
            (case dropWhile newline src of
               [] \<Rightarrow> Inl CorruptInputError
             | p # rest \<Rightarrow>
                 if p \<noteq> CHR ''='' then Inl CorruptInputError
                 else if dropWhile newline rest \<noteq> [] then Inl CorruptInputError
                 else Inr (dst @ quantum dbuf))
          else if dropWhile newline src \<noteq> [] then Inl CorruptInputError
          else Inr (dst @ quantum dbuf))"

definition DecodeString :: "string \<Rightarrow> error + string" where
  "DecodeString s = decode s [] []"

subsection \<open>The request envelope\<close>

record LambdaRequest =
  HTTPMethod :: string
  Path :: string
  QueryStringParameters :: "string gomap"
  MultiValueQueryStringParameters :: "string list gomap"
  MultiValueHeaders :: "string list gomap"
  Headers :: "string gomap"
  Body :: string
  IsBase64Encoded :: bool

text \<open>
  \<^verbatim>\<open>bodyToBase64\<close>. \<open>Inl\<close> is the panic on a failed read. The encoder writes into a
  \<^verbatim>\<open>bytes.Buffer\<close>, whose writes report no error, so \<^verbatim>\<open>encoder.Close()\<close> reports none.
\<close>

definition bodyToBase64 :: "Request \<Rightarrow> error + bool \<times> string" where
  "bodyToBase64 req =
     (if ContentLength req \<noteq> 0 then
        (case Copy (Request.Body req) of
           Inl err \<Rightarrow> Inl err
         | Inr written \<Rightarrow> Inr (True, EncodeToString written))
      else Inr (False, []))"

text \<open>
  The loops of \<^verbatim>\<open>headersToMap\<close>, \<^verbatim>\<open>headersToMultiMap\<close>, \<^verbatim>\<open>valuesToMap\<close> and \<^verbatim>\<open>valuesToMultiMap\<close>
  over the entries of their argument; \<open>values\<close> is the map under construction, which starts
  as the empty map literal.
\<close>

fun headersToMap_loop ::
  "(string \<times> string list) list \<Rightarrow> (string, string) alist \<Rightarrow> (string, string) alist" where
  "headersToMap_loop [] values = values"
| "headersToMap_loop ((name, headers) # h) values =
     (if length headers \<noteq> 1 then headersToMap_loop h values
      else headersToMap_loop h (DAList.update name (headers ! 0) values))"

definition headersToMap :: "string list gomap \<Rightarrow> string gomap" where
  "headersToMap h = MakeMap (headersToMap_loop (entries h) DAList.empty)"

fun headersToMultiMap_loop ::
  "(string \<times> string list) list \<Rightarrow> (string, string list) alist \<Rightarrow> (string, string list) alist" where
  "headersToMultiMap_loop [] values = values"
| "headersToMultiMap_loop ((name, headers) # h) values =
     (if length headers < 2 then headersToMultiMap_loop h values
      else headersToMultiMap_loop h (DAList.update name headers values))"

definition headersToMultiMap :: "string list gomap \<Rightarrow> string list gomap" where
  "headersToMultiMap h = MakeMap (headersToMultiMap_loop (entries h) DAList.empty)"

fun valuesToMap_loop ::
  "(string \<times> string list) list \<Rightarrow> (string, string) alist \<Rightarrow> (string, string) alist" where
  "valuesToMap_loop [] values = values"
| "valuesToMap_loop ((name, val) # i) values =
     (case valueToString (strings val) of
        (v, valid) \<Rightarrow>
          if \<not> valid then valuesToMap_loop i values
          else valuesToMap_loop i (DAList.update name v values))"

definition valuesToMap :: "string list gomap \<Rightarrow> string gomap" where
  "valuesToMap i = MakeMap (valuesToMap_loop (entries i) DAList.empty)"

fun valuesToMultiMap_loop ::
  "(string \<times> string list) list \<Rightarrow> (string, string list) alist \<Rightarrow> (string, string list) alist" where
  "valuesToMultiMap_loop [] values = values"
| "valuesToMultiMap_loop ((name, val) # i) values =
     (case valuesToStrings (strings val) of
        (v, valid) \<Rightarrow>
          if \<not> valid \<or> length v = 1 then valuesToMultiMap_loop i values
          else valuesToMultiMap_loop i (DAList.update name v values))"

definition valuesToMultiMap :: "string list gomap \<Rightarrow> string list gomap" where
  "valuesToMultiMap i = MakeMap (valuesToMultiMap_loop (entries i) DAList.empty)"

text \<open>
  The first statement of \<^verbatim>\<open>ServeHTTP\<close> and the composite literal it hands to \<^verbatim>\<open>invokeFunction\<close>
  (lines 110 to 120): the envelope of a request, or the panic of \<^verbatim>\<open>bodyToBase64\<close>.
\<close>

definition envelope :: "Request \<Rightarrow> error + LambdaRequest" where
  "envelope req =
     (case bodyToBase64 req of
        Inl err \<Rightarrow> Inl err
      | Inr (base64Encoded, body) \<Rightarrow>
          Inr \<lparr> HTTPMethod = Method req,
                Path = URL.Path (URL req),
                QueryStringParameters = valuesToMap (Query (URL req)),
                MultiValueQueryStringParameters = valuesToMultiMap (Query (URL req)),
                MultiValueHeaders = headersToMultiMap (Header req),
                Headers = headersToMap (Header req),
                Body = body,
                IsBase64Encoded = base64Encoded \<rparr>)"

subsection \<open>Invocation and the outbound response\<close>

record LambdaResponse =
  StatusCode :: int
  StatusDescription :: string
  IsBase64Encoded :: bool
  Headers :: "string gomap"
  MultiValueHeaders :: "string list gomap"
  Body :: string

text \<open>
  What the program does not contain is a parameter: \<^verbatim>\<open>json.Marshal\<close> of an envelope,
  \<^verbatim>\<open>json.Unmarshal\<close> into a response, and the Lambda client's \<^verbatim>\<open>Invoke\<close>, which answers with an
  error or with an output whose status code is a pointer (\<open>None\<close> when nil).
\<close>

record JSON =
  Marshal :: "LambdaRequest \<Rightarrow> error + string"
  Unmarshal :: "string \<Rightarrow> error + LambdaResponse"

record InvokeInput =
  FunctionName :: string
  Payload :: string

record InvokeOutput =
  StatusCode :: "int option"
  Payload :: string

text \<open>
  The calls the handler makes on the world outside, in order: on the Lambda client and on the
  response writer (\<^verbatim>\<open>rw.Header().Set\<close>, \<^verbatim>\<open>rw.Header().Add\<close>, \<^verbatim>\<open>rw.WriteHeader\<close>, \<^verbatim>\<open>rw.Write\<close>).
  A handler ends by returning or in a panic.
\<close>

datatype call =
    Invoke InvokeInput
  | HeaderSet string string
  | HeaderAdd string string
  | WriteHeader int
  | Write string

datatype ending = Returned | Panicked error

text \<open>
  \<^verbatim>\<open>http.ResponseWriter\<close> is an interface. Of an implementation the handler sees whether
  \<^verbatim>\<open>WriteHeader\<close> panics on a status code (those of \<^verbatim>\<open>net/http\<close> do on a code outside 100..999)
  and the error \<^verbatim>\<open>Write\<close> returns.
\<close>

record ResponseWriter =
  WriteHeaderPanic :: "int \<Rightarrow> error option"
  WriteError :: "string \<Rightarrow> error option"

type_synonym Handler = "ResponseWriter \<Rightarrow> Request \<Rightarrow> call list \<times> ending"

record AwsLambdaPlugin =
  nextHandler :: Handler
  functionArn :: string
  name :: string
  client :: "InvokeInput \<Rightarrow> error + InvokeOutput"

text \<open>\<^verbatim>\<open>invokeFunction\<close>: the calls made, and the response or the value of the panic.\<close>

definition invokeFunction ::
  "JSON \<Rightarrow> AwsLambdaPlugin \<Rightarrow> LambdaRequest \<Rightarrow> call list \<times> (error + LambdaResponse)" where
  "invokeFunction json a request =
     (case Marshal json request of
        Inl err \<Rightarrow> ([], Inl err)
      | Inr payload \<Rightarrow>
          (let input = \<lparr> FunctionName = functionArn a, InvokeInput.Payload = payload \<rparr>
           in case client a input of
                Inl err \<Rightarrow> ([Invoke input], Inl err)
              | Inr result \<Rightarrow>
                  (case InvokeOutput.StatusCode result of
                     None \<Rightarrow> ([Invoke input], Inl NilPointerDereference)
                   | Some code \<Rightarrow>
                       if code \<noteq> 200 then ([Invoke input], Inl (Error ''call to lambda failed''))
                       else (case Unmarshal json (InvokeOutput.Payload result) of
                               Inl err \<Rightarrow> ([Invoke input], Inl err)
                             | Inr resp \<Rightarrow> ([Invoke input], Inr resp)))))"

text \<open>The two header loops of \<^verbatim>\<open>ServeHTTP\<close>.\<close>

fun setHeaders :: "(string \<times> string) list \<Rightarrow> call list" where
  "setHeaders [] = []"
| "setHeaders ((key, val) # rest) = HeaderSet key val # setHeaders rest"

fun addHeaders :: "(string \<times> string list) list \<Rightarrow> call list" where
  "addHeaders [] = []"
| "addHeaders ((key, vals) # rest) = map (HeaderAdd key) vals @ addHeaders rest"

text \<open>The rest of \<^verbatim>\<open>ServeHTTP\<close>, from the response of the function on (lines 122 to 146).\<close>

definition respond :: "ResponseWriter \<Rightarrow> LambdaResponse \<Rightarrow> call list \<times> ending" where
  "respond rw resp =
     (case (if LambdaResponse.IsBase64Encoded resp then DecodeString (LambdaResponse.Body resp)
            else Inr (LambdaResponse.Body resp)) of
        Inl err \<Rightarrow> ([], Panicked err)
      | Inr body \<Rightarrow>
          (let headers = setHeaders (entries (LambdaResponse.Headers resp))
                         @ addHeaders (entries (LambdaResponse.MultiValueHeaders resp))
           in case WriteHeaderPanic rw (LambdaResponse.StatusCode resp) of
                Some err \<Rightarrow> (headers @ [WriteHeader (LambdaResponse.StatusCode resp)], Panicked err)
              | None \<Rightarrow>
                  (headers @ [WriteHeader (LambdaResponse.StatusCode resp), Write body],
                   case WriteError rw body of
                     Some err \<Rightarrow> Panicked err
                   | None \<Rightarrow> Returned)))"

definition ServeHTTP :: "JSON \<Rightarrow> AwsLambdaPlugin \<Rightarrow> Handler" where
  "ServeHTTP json a rw req =
     (case envelope req of
        Inl err \<Rightarrow> ([], Panicked err)
      | Inr request \<Rightarrow>
          (case invokeFunction json a request of
             (calls, Inl err) \<Rightarrow> (calls, Panicked err)
           | (calls, Inr resp) \<Rightarrow>
               (case respond rw resp of (calls', e) \<Rightarrow> (calls @ calls', e))))"

text \<open>The bytes handed to \<^verbatim>\<open>rw.Write\<close>, and the calls that are made on the response writer.\<close>

fun written :: "call list \<Rightarrow> string" where
  "written [] = []"
| "written (Write b # cs) = b @ written cs"
| "written (c # cs) = written cs"

fun on_writer :: "call \<Rightarrow> bool" where
  "on_writer (Invoke i) = False"
| "on_writer c = True"

subsection \<open>The request and the test doubles of the repository's test\<close>

text \<open>
  \<^verbatim>\<open>TestInvoke\<close> sends \<^verbatim>\<open>POST /this/path/is/not/empty?a=1&b=2&c=3&c=4&d[]=5&d[]=6\<close> with one
  \<^verbatim>\<open>Content-Type\<close> header, two \<^verbatim>\<open>X-Test\<close> headers and a body of 16 bytes.
\<close>

definition testHeader :: "string list gomap" where
  "testHeader =
     MakeMap (DAList.update ''X-Test'' [''foo'', ''foobar'']
               (DAList.update ''Content-Type'' [''text/plain''] DAList.empty))"

definition testRequest :: Request where
  "testRequest =
     \<lparr> Method = ''POST'',
       URL = \<lparr> URL.Path = ''/this/path/is/not/empty'',
               QueryPairs = [(''a'', ''1''), (''b'', ''2''), (''c'', ''3''), (''c'', ''4''),
                             (''d[]'', ''5''), (''d[]'', ''6'')] \<rparr>,
       Header = testHeader,
       ContentLength = 16,
       Request.Body = Reader [''This is the body''] None \<rparr>"

text \<open>
  A JSON double that marshals every envelope to one payload and unmarshals every payload to
  the response \<open>resp\<close>; a client that answers every call with the status \<open>code\<close>; a response
  writer that panics on a status code outside 100..999 and writes without error.
\<close>

definition stubJSON :: "LambdaResponse \<Rightarrow> JSON" where
  "stubJSON resp = \<lparr> Marshal = (\<lambda>request. Inr ''payload''), Unmarshal = (\<lambda>payload. Inr resp) \<rparr>"

definition stubPlugin :: "int \<Rightarrow> AwsLambdaPlugin" where
  "stubPlugin code =
     \<lparr> nextHandler = (\<lambda>rw req. ([], Returned)),
       functionArn = ''arn:aws:lambda:eu-west-1:000000000000:function:xxx:1'',
       name = ''lambda-plugin'',
       client = (\<lambda>input. Inr \<lparr> InvokeOutput.StatusCode = Some code, InvokeOutput.Payload = ''result'' \<rparr>) \<rparr>"

definition recorder :: ResponseWriter where
  "recorder =
     \<lparr> WriteHeaderPanic = (\<lambda>code. if code < 100 \<or> 999 < code
                                    then Some (Error ''invalid WriteHeader code'') else None),
       WriteError = (\<lambda>b. None) \<rparr>"

text \<open>The response of the test's server, \<^verbatim>\<open>{"statusCode": 500}\<close>, and one with an encoded body.\<close>

definition response500 :: LambdaResponse where
  "response500 =
     \<lparr> LambdaResponse.StatusCode = 500, StatusDescription = [],
       LambdaResponse.IsBase64Encoded = False, LambdaResponse.Headers = NilMap,
       LambdaResponse.MultiValueHeaders = NilMap, LambdaResponse.Body = [] \<rparr>"

definition responseHello :: "bool \<Rightarrow> string \<Rightarrow> LambdaResponse" where
  "responseHello encoded body =
     \<lparr> LambdaResponse.StatusCode = 200, StatusDescription = ''OK'',
       LambdaResponse.IsBase64Encoded = encoded,
       LambdaResponse.Headers =
         MakeMap (DAList.update ''Content-Type'' ''text/plain'' DAList.empty),
       LambdaResponse.MultiValueHeaders =
         MakeMap (DAList.update ''Set-Cookie'' [''a=1'', ''b=2''] DAList.empty),
       LambdaResponse.Body = body \<rparr>"

text \<open>
  The kinds of the scalars that \<^verbatim>\<open>valueToString\<close> converts: signed and unsigned integers,
  floats and strings.
\<close>

definition scalarKinds :: "Kind set" where
  "scalarKinds = {KInt, KInt8, KInt16, KInt32, KInt64, KUint, KUint8, KUint16, KUint32, KUint64,
                  KFloat32, KFloat64, KString}"

text \<open>A request with no query string, no header and no body.\<close>

definition emptyRequest :: Request where
  "emptyRequest =
     \<lparr> Method = ''GET'', URL = \<lparr> URL.Path = ''/'', QueryPairs = [] \<rparr>, Header = NilMap,
       ContentLength = 0, Request.Body = Reader [] None \<rparr>"

section \<open>Properties\<close>

subsection \<open>Coercion of query values, and what the four loops compute\<close>

text \<open>
  The values of a query parameter are strings, so their conversion is valid and keeps them
  as they are; the conversion to one string is valid for exactly one value.
\<close>

lemma valueToString_StringV: "valueToString (StringV s) = (s, True)"
  by (simp add: valueToString.simps)

lemma strings_of_StringV: "map fst (filter snd (map (valueToString \<circ> StringV) val)) = val"
  by (induction val) (simp_all add: valueToString_StringV)

lemma valuesToStrings_strings: "valuesToStrings (strings val) = (val, True)"
  by (simp add: valuesToStrings.simps strings_def strings_of_StringV)

lemma valueToString_strings:
  "valueToString (strings val) = (if length val = 1 then (val ! 0, True) else ([], False))"
proof -
  have "valueToString (strings val) =
          (case valuesToStrings (strings val) of
             (t, valid) \<Rightarrow> if \<not> valid \<or> length t \<noteq> 1 then ([], False) else (t ! 0, True))"
    by (subst valueToString.simps) (simp add: strings_def)
  then show ?thesis
    by (simp add: valuesToStrings_strings)
qed

lemma lookup_headersToMap_loop:
  "distinct (map fst h) \<Longrightarrow>
   DAList.lookup (headersToMap_loop h values) k =
     (case map_of h k of
        None \<Rightarrow> DAList.lookup values k
      | Some headers \<Rightarrow> if length headers = 1 then Some (headers ! 0) else DAList.lookup values k)"
proof (induction h arbitrary: "values")
  case Nil
  then show ?case by simp
next
  case (Cons p h)
  obtain name headers where p: "p = (name, headers)" by (cases p)
  from Cons.prems p have notin: "name \<notin> fst ` set h" and d: "distinct (map fst h)" by auto
  from notin have none: "map_of h name = None" by (simp add: map_of_eq_None_iff)
  show ?case
    using Cons.IH [OF d] none by (auto simp: p DAList.lookup_update split: option.splits)
qed

lemma lookup_headersToMultiMap_loop:
  "distinct (map fst h) \<Longrightarrow>
   DAList.lookup (headersToMultiMap_loop h values) k =
     (case map_of h k of
        None \<Rightarrow> DAList.lookup values k
      | Some headers \<Rightarrow> if 2 \<le> length headers then Some headers else DAList.lookup values k)"
proof (induction h arbitrary: "values")
  case Nil
  then show ?case by simp
next
  case (Cons p h)
  obtain name headers where p: "p = (name, headers)" by (cases p)
  from Cons.prems p have notin: "name \<notin> fst ` set h" and d: "distinct (map fst h)" by auto
  from notin have none: "map_of h name = None" by (simp add: map_of_eq_None_iff)
  show ?case
    using Cons.IH [OF d] none by (auto simp: p DAList.lookup_update split: option.splits)
qed

lemma lookup_valuesToMap_loop:
  "distinct (map fst i) \<Longrightarrow>
   DAList.lookup (valuesToMap_loop i values) k =
     (case map_of i k of
        None \<Rightarrow> DAList.lookup values k
      | Some val \<Rightarrow> if length val = 1 then Some (val ! 0) else DAList.lookup values k)"
proof (induction i arbitrary: "values")
  case Nil
  then show ?case by simp
next
  case (Cons p i)
  obtain name val where p: "p = (name, val)" by (cases p)
  from Cons.prems p have notin: "name \<notin> fst ` set i" and d: "distinct (map fst i)" by auto
  from notin have none: "map_of i name = None" by (simp add: map_of_eq_None_iff)
  show ?case
    using Cons.IH [OF d] none
    by (auto simp: p valueToString_strings DAList.lookup_update split: option.splits)
qed

lemma lookup_valuesToMultiMap_loop:
  "distinct (map fst i) \<Longrightarrow>
   DAList.lookup (valuesToMultiMap_loop i values) k =
     (case map_of i k of
        None \<Rightarrow> DAList.lookup values k
      | Some val \<Rightarrow> if length val \<noteq> 1 then Some val else DAList.lookup values k)"
proof (induction i arbitrary: "values")
  case Nil
  then show ?case by simp
next
  case (Cons p i)
  obtain name val where p: "p = (name, val)" by (cases p)
  from Cons.prems p have notin: "name \<notin> fst ` set i" and d: "distinct (map fst i)" by auto
  from notin have none: "map_of i name = None" by (simp add: map_of_eq_None_iff)
  show ?case
    using Cons.IH [OF d] none
    by (auto simp: p valuesToStrings_strings DAList.lookup_update split: option.splits)
qed

lemma distinct_entries: "distinct (map fst (entries m))"
  by (cases m) simp_all

lemma map_of_entries: "map_of (entries m) k = index m k"
  by (cases m) (simp_all add: DAList.lookup.rep_eq)

lemma index_headersToMap:
  "index (headersToMap h) k =
     (case index h k of
        None \<Rightarrow> None
      | Some headers \<Rightarrow> if length headers = 1 then Some (headers ! 0) else None)"
  by (simp add: headersToMap_def lookup_headersToMap_loop distinct_entries map_of_entries split: option.splits)

lemma index_headersToMultiMap:
  "index (headersToMultiMap h) k =
     (case index h k of
        None \<Rightarrow> None
      | Some headers \<Rightarrow> if 2 \<le> length headers then Some headers else None)"
  by (simp add: headersToMultiMap_def lookup_headersToMultiMap_loop distinct_entries map_of_entries split: option.splits)

lemma index_valuesToMap:
  "index (valuesToMap i) k =
     (case index i k of
        None \<Rightarrow> None
      | Some val \<Rightarrow> if length val = 1 then Some (val ! 0) else None)"
  by (simp add: valuesToMap_def lookup_valuesToMap_loop distinct_entries map_of_entries split: option.splits)

lemma index_valuesToMultiMap:
  "index (valuesToMultiMap i) k =
     (case index i k of
        None \<Rightarrow> None
      | Some val \<Rightarrow> if length val \<noteq> 1 then Some val else None)"
  by (simp add: valuesToMultiMap_def lookup_valuesToMultiMap_loop distinct_entries map_of_entries split: option.splits)

lemma parseQuery_nonempty:
  "(\<And>k vs. DAList.lookup m k = Some vs \<Longrightarrow> vs \<noteq> []) \<Longrightarrow>
   DAList.lookup (parseQuery m query) k = Some vs \<Longrightarrow> vs \<noteq> []"
proof (induction query arbitrary: m)
  case Nil
  then show ?case by simp
next
  case (Cons p query)
  obtain key val where p: "p = (key, val)" by (cases p)
  let ?m = "DAList.update key ((case DAList.lookup m key of None \<Rightarrow> [] | Some vs \<Rightarrow> vs) @ [val]) m"
  have "\<And>k vs. DAList.lookup ?m k = Some vs \<Longrightarrow> vs \<noteq> []"
    using Cons.prems(1) by (auto simp: DAList.lookup_update split: if_splits)
  moreover have "DAList.lookup (parseQuery ?m query) k = Some vs"
    using Cons.prems(2) by (simp add: p)
  ultimately show ?case by (rule Cons.IH)
qed

lemma Query_nonempty: "index (Query u) k = Some vs \<Longrightarrow> vs \<noteq> []"
  unfolding Query_def by (simp, erule parseQuery_nonempty [rotated]) simp

subsection \<open>The base64 encoding\<close>

text \<open>
  The encoder and the decoder fit together: decoding the encoding of a byte string gives the
  byte string back, whatever its length.
\<close>

lemma byte_char_of: "byte n = char_of n"
  by (simp add: byte_def char_of_def bit_iff_odd)

lemma byte_of_char: "byte (of_char c) = c"
  by (simp add: byte_char_of)

lemma byte_mod: "byte (n mod 256) = byte n"
  by (simp add: byte_char_of)

lemma position_nth: "distinct xs \<Longrightarrow> n < length xs \<Longrightarrow> position (xs ! n) xs = Some n"
proof (induction xs arbitrary: n)
  case Nil
  then show ?case by simp
next
  case (Cons x xs)
  then show ?case by (cases n) (auto simp: nth_Cons')
qed

lemma distinct_encodeStd: "distinct encodeStd"
  by (simp add: encodeStd_def)

lemma decodeMap_encodeStd: "n < 64 \<Longrightarrow> decodeMap (encodeStd ! n) = Some n"
  unfolding decodeMap_def by (rule position_nth [OF distinct_encodeStd]) (simp add: encodeStd_def)

lemma decodeMap_pad: "decodeMap (CHR ''='') = None"
  by (simp add: decodeMap_def encodeStd_def)


lemma quantum_lists:
  "quantum [s1, s2, s3, s4] =
     [byte ((((s1 * 64 + s2) * 64 + s3) * 64 + s4) div 65536),
      byte ((((s1 * 64 + s2) * 64 + s3) * 64 + s4) div 256),
      byte (((s1 * 64 + s2) * 64 + s3) * 64 + s4)]"
  "quantum [s1, s2, s3] =
     [byte ((((s1 * 64 + s2) * 64 + s3) * 64) div 65536),
      byte ((((s1 * 64 + s2) * 64 + s3) * 64) div 256)]"
  "quantum [s1, s2] = [byte (((s1 * 64 + s2) * 64 * 64) div 65536)]"
  by (simp_all add: quantum_def Let_def numeral_2_eq_2)

lemma pack_sextets:
  "((A * 64 + (a4 * 16 + B)) * 64 + (b16 * 4 + C)) * 64 + c64 =
     ((A * 4 + a4) * 256 + (B * 16 + b16)) * 256 + (C * 64 + (c64::nat))"
  "((A * 64 + (a4 * 16 + B)) * 64 + b16 * 4) * 64 =
     ((A * 4 + a4) * 256 + (B * 16 + b16)) * 256 + (0::nat)"
  "(A * 64 + a4 * 16) * 64 * 64 = ((A * 4 + a4) * 256 + 0) * 256 + (0::nat)"
  by (simp_all add: algebra_simps)

lemma quantum_value:
  "((a div 4 * 64 + (a mod 4 * 16 + b div 16)) * 64 + (b mod 16 * 4 + c div 64)) * 64 + c mod 64 =
     (a * 256 + b) * 256 + (c::nat)"
  "((a div 4 * 64 + (a mod 4 * 16 + b div 16)) * 64 + b mod 16 * 4) * 64 =
     (a * 256 + b) * 256 + (0::nat)"
  "(a div 4 * 64 + a mod 4 * 16) * 64 * 64 = (a * 256 + 0) * 256 + (0::nat)"
  by (simp_all only: pack_sextets div_mult_mod_eq)

lemma bytes_of_value:
  assumes "b < 256" "c < 256"
  shows "byte (((a * 256 + b) * 256 + c) div 65536) = byte a"
    and "byte (((a * 256 + b) * 256 + c) div 256) = byte b"
    and "byte ((a * 256 + b) * 256 + c) = byte c"
proof -
  let ?val = "(a * 256 + b) * 256 + c"
  from assms have d: "?val div 256 = a * 256 + b" by simp
  have "?val div 65536 = ?val div 256 div 256"
    by (simp only: div_mult2_eq [symmetric]) simp
  with assms d have "?val div 65536 = a" by simp
  then show "byte (?val div 65536) = byte a" by simp
  have "(a * 256 + b) mod 256 = b mod 256" by (simp only: mod_mult_self3)
  with d show "byte (?val div 256) = byte b"
    by (metis byte_mod)
  have "?val mod 256 = c mod 256" by (simp only: mod_mult_self3)
  then show "byte ?val = byte c"
    by (metis byte_mod)
qed

lemma quantum_4:
  assumes "a < 256" "b < 256" "c < 256"
  shows "quantum [a div 4, a mod 4 * 16 + b div 16, b mod 16 * 4 + c div 64, c mod 64] =
           [byte a, byte b, byte c]"
  unfolding quantum_lists quantum_value bytes_of_value [OF assms(2,3)] ..

lemma quantum_3:
  assumes "a < 256" "b < 256"
  shows "quantum [a div 4, a mod 4 * 16 + b div 16, b mod 16 * 4] = [byte a, byte b]"
proof -
  have z: "(0::nat) < 256" by simp
  show ?thesis
    unfolding quantum_lists quantum_value bytes_of_value [OF assms(2) z] ..
qed

lemma quantum_2:
  assumes "a < 256"
  shows "quantum [a div 4, a mod 4 * 16] = [byte a]"
proof -
  have z: "(0::nat) < 256" by simp
  show ?thesis
    unfolding quantum_lists quantum_value bytes_of_value [OF z z] ..
qed

lemma sextet_sum:
  fixes x y :: nat
  shows "x < 4 \<Longrightarrow> y < 16 \<Longrightarrow> x * 16 + y < 64"
    and "x < 16 \<Longrightarrow> y < 4 \<Longrightarrow> x * 4 + y < 64"
  by linarith+

lemma div_bounded:
  fixes a :: nat
  shows "a < 256 \<Longrightarrow> a div 4 < 64" and "a < 256 \<Longrightarrow> a div 16 < 16"
    and "a < 256 \<Longrightarrow> a div 64 < 4"
  by (simp_all add: less_mult_imp_div_less)

lemma sextets_bounded:
  fixes a b c :: nat
  shows "a < 256 \<Longrightarrow> a div 4 < 64"
    and "a mod 4 * 16 < 64"
    and "b < 256 \<Longrightarrow> a mod 4 * 16 + b div 16 < 64"
    and "b mod 16 * 4 < 64"
    and "c < 256 \<Longrightarrow> b mod 16 * 4 + c div 64 < 64"
    and "c mod 64 < 64"
proof -
  show "a < 256 \<Longrightarrow> a div 4 < 64" by (rule div_bounded)
  show "a mod 4 * 16 < 64" using sextet_sum(1) [of "a mod 4" 0] by simp
  show "b < 256 \<Longrightarrow> a mod 4 * 16 + b div 16 < 64"
    by (rule sextet_sum(1)) (simp_all add: div_bounded)
  show "b mod 16 * 4 < 64" using sextet_sum(2) [of "b mod 16" 0] by simp
  show "c < 256 \<Longrightarrow> b mod 16 * 4 + c div 64 < 64"
    by (rule sextet_sum(2)) (simp_all add: div_bounded)
  show "c mod 64 < 64" by simp
qed

lemma decode_step:
  "decodeMap c = Some s \<Longrightarrow> length dbuf < 3 \<Longrightarrow> decode (c # src) dbuf dst = decode src (dbuf @ [s]) dst"
  "decodeMap c = Some s \<Longrightarrow> length dbuf = 3 \<Longrightarrow>
     decode (c # src) dbuf dst = decode src [] (dst @ quantum (dbuf @ [s]))"
  by simp_all

lemma decode_encode:
  "\<forall>a \<in> set src. a < 256 \<Longrightarrow> decode (encode src) [] dst = Inr (dst @ map byte src)"
proof (induction src arbitrary: dst rule: encode.induct)
  case 1
  then show ?case by simp
next
  case (2 a)
  then have a: "a < 256" by simp
  note s = sextets_bounded
  have "decode (encode [a]) [] dst = decode ''=='' [a div 4, a mod 4 * 16] dst"
    using a by (simp add: decode_step decodeMap_encodeStd s del: decode.simps)
  also have "\<dots> = Inr (dst @ quantum [a div 4, a mod 4 * 16])"
    by (simp add: decodeMap_pad newline_def)
  finally show ?case by (simp add: quantum_2 [OF a])
next
  case (3 a b)
  then have a: "a < 256" and b: "b < 256" by simp_all
  note s = sextets_bounded
  have "decode (encode [a, b]) [] dst =
          decode ''='' [a div 4, a mod 4 * 16 + b div 16, b mod 16 * 4] dst"
    using a b by (simp add: decode_step decodeMap_encodeStd s del: decode.simps)
  also have "\<dots> = Inr (dst @ quantum [a div 4, a mod 4 * 16 + b div 16, b mod 16 * 4])"
    by (simp add: decodeMap_pad newline_def)
  finally show ?case by (simp add: quantum_3 [OF a b])
next
  case (4 a b c src)
  then have a: "a < 256" and b: "b < 256" and c: "c < 256"
    and rest: "\<forall>a \<in> set src. a < 256" by simp_all
  note s = sextets_bounded
  have "decode (encode (a # b # c # src)) [] dst =
          decode (encode src) []
            (dst @ quantum [a div 4, a mod 4 * 16 + b div 16, b mod 16 * 4 + c div 64, c mod 64])"
    using a b c by (simp add: decode_step decodeMap_encodeStd s del: decode.simps)
  also have "\<dots> = Inr ((dst @ [byte a, byte b, byte c]) @ map byte src)"
    unfolding quantum_4 [OF a b c] by (rule "4.IH" [OF rest])
  finally show ?case by simp
qed

lemma DecodeString_EncodeToString: "DecodeString (EncodeToString src) = Inr src"
proof -
  have "\<forall>a \<in> set (map of_char src :: nat list). a < 256"
    by simp
  then have "decode (encode (map of_char src)) [] [] = Inr ([] @ map byte (map of_char src))"
    by (rule decode_encode)
  then show ?thesis
    by (simp add: DecodeString_def EncodeToString_def byte_of_char comp_def)
qed

subsection \<open>The envelope of a request\<close>

lemma envelope_fields:
  "envelope req = Inr e \<Longrightarrow>
     QueryStringParameters e = valuesToMap (Query (URL req)) \<and>
     MultiValueQueryStringParameters e = valuesToMultiMap (Query (URL req)) \<and>
     LambdaRequest.Headers e = headersToMap (Header req) \<and>
     LambdaRequest.MultiValueHeaders e = headersToMultiMap (Header req)"
  by (auto simp: envelope_def split: sum.splits)

text \<open>What the envelope of the test's request is built from.\<close>

lemma Header_testRequest: "Header testRequest = testHeader"
  by (simp add: testRequest_def)

lemma envelope_testRequest: "\<exists>e. envelope testRequest = Inr e"
  by (simp add: envelope_def bodyToBase64_def testRequest_def)

lemma index_testQuery:
  "index (Query (URL testRequest)) n =
     (if n = ''a'' then Some [''1''] else if n = ''b'' then Some [''2'']
      else if n = ''c'' then Some [''3'', ''4''] else if n = ''d[]'' then Some [''5'', ''6'']
      else None)"
  by (simp add: Query_def testRequest_def DAList.lookup_update)

lemma index_testHeader:
  "index testHeader n =
     (if n = ''X-Test'' then Some [''foo'', ''foobar'']
      else if n = ''Content-Type'' then Some [''text/plain''] else None)"
  by (simp add: testHeader_def DAList.lookup_update)

text \<open>
  \<^verbatim>\<open>valuesToMultiMap\<close> skips a name whose values number exactly one, where \<^verbatim>\<open>headersToMultiMap\<close>
  skips fewer than two: handed a name with no value at all it would store the empty
  sequence. \<^verbatim>\<open>URL.Query()\<close> never yields such a name (\<open>Query_nonempty\<close>), so the envelope of
  a request holds none.
\<close>

lemma valuesToMultiMap_no_value:
  "index (valuesToMultiMap (MakeMap (DAList.update ''x'' [] DAList.empty))) ''x'' = Some []"
  by (simp add: index_valuesToMultiMap)

text \<open>
  Claim C1. For every inbound request and every name, the name is a key of at most one of
  \<open>queryStringParameters\<close> and \<open>multiValueQueryStringParameters\<close> of the envelope built,
  and of at most one of \<open>headers\<close> and \<open>multiValueHeaders\<close>; every sequence stored in
  \<open>multiValueQueryStringParameters\<close> or \<open>multiValueHeaders\<close> has at least two elements.
\<close>

theorem envelope_maps_disjoint:
  assumes "envelope req = Inr e"
  shows "(index (QueryStringParameters e) n = None \<or>
            index (MultiValueQueryStringParameters e) n = None) \<and>
         (index (LambdaRequest.Headers e) n = None \<or>
            index (LambdaRequest.MultiValueHeaders e) n = None) \<and>
         (\<forall>vs. index (MultiValueQueryStringParameters e) n = Some vs \<longrightarrow> 2 \<le> length vs) \<and>
         (\<forall>vs. index (LambdaRequest.MultiValueHeaders e) n = Some vs \<longrightarrow> 2 \<le> length vs)"
proof -
  note f = envelope_fields [OF assms]
  have q: "index (QueryStringParameters e) n = None \<or>
           index (MultiValueQueryStringParameters e) n = None"
    by (simp add: f index_valuesToMap index_valuesToMultiMap split: option.splits)
  have h: "index (LambdaRequest.Headers e) n = None \<or>
           index (LambdaRequest.MultiValueHeaders e) n = None"
    by (simp add: f index_headersToMap index_headersToMultiMap split: option.splits)
  have mq: "2 \<le> length vs" if "index (MultiValueQueryStringParameters e) n = Some vs" for vs
  proof -
    from that have "index (Query (URL req)) n = Some vs" and "length vs \<noteq> 1"
      by (auto simp: f index_valuesToMultiMap split: option.splits if_splits)
    moreover from this(1) have "length vs \<noteq> 0" by (auto dest: Query_nonempty)
    ultimately show ?thesis by arith
  qed
  have mh: "2 \<le> length vs" if "index (LambdaRequest.MultiValueHeaders e) n = Some vs" for vs
    using that by (auto simp: f index_headersToMultiMap split: option.splits if_splits)
  from q h mq mh show ?thesis by blast
qed

text \<open>
  The test's request: \<open>a\<close> has one value and is in the singular map only, \<open>c\<close> and
  \<open>X-Test\<close> have two and are in the multi-valued maps only.
\<close>

theorem envelope_maps_disjoint_witness:
  "\<exists>e. envelope testRequest = Inr e \<and>
     index (QueryStringParameters e) ''a'' = Some ''1'' \<and>
     index (MultiValueQueryStringParameters e) ''a'' = None \<and>
     index (QueryStringParameters e) ''c'' = None \<and>
     index (MultiValueQueryStringParameters e) ''c'' = Some [''3'', ''4''] \<and>
     index (LambdaRequest.Headers e) ''X-Test'' = None \<and>
     index (LambdaRequest.MultiValueHeaders e) ''X-Test'' = Some [''foo'', ''foobar''] \<and>
     (index (QueryStringParameters e) ''c'' = None \<or>
        index (MultiValueQueryStringParameters e) ''c'' = None) \<and>
     (index (LambdaRequest.Headers e) ''c'' = None \<or>
        index (LambdaRequest.MultiValueHeaders e) ''c'' = None) \<and>
     (\<forall>vs. index (MultiValueQueryStringParameters e) ''c'' = Some vs \<longrightarrow> 2 \<le> length vs) \<and>
     (\<forall>vs. index (LambdaRequest.MultiValueHeaders e) ''c'' = Some vs \<longrightarrow> 2 \<le> length vs)"
proof -
  obtain e where e: "envelope testRequest = Inr e"
    using envelope_testRequest by blast
  note f = envelope_fields [OF e]
  have "index (QueryStringParameters e) ''a'' = Some ''1''"
    and "index (MultiValueQueryStringParameters e) ''a'' = None"
    and "index (QueryStringParameters e) ''c'' = None"
    and "index (MultiValueQueryStringParameters e) ''c'' = Some [''3'', ''4'']"
    and "index (LambdaRequest.Headers e) ''X-Test'' = None"
    and "index (LambdaRequest.MultiValueHeaders e) ''X-Test'' = Some [''foo'', ''foobar'']"
    by (simp_all add: f Header_testRequest index_valuesToMap index_valuesToMultiMap
        index_headersToMap index_headersToMultiMap index_testQuery index_testHeader)
  with e envelope_maps_disjoint [OF e, of "''c''"] show ?thesis by blast
qed

text \<open>
  Claim C9. For every inbound request with an empty query string and no headers (a nil or an
  empty header map), the four maps of the envelope are the empty map, not the nil map that
  JSON renders as \<open>null\<close>.
\<close>

theorem envelope_empty_maps:
  assumes "QueryPairs (URL req) = []" and "entries (Header req) = []"
    and "envelope req = Inr e"
  shows "QueryStringParameters e = MakeMap DAList.empty \<and>
         MultiValueQueryStringParameters e = MakeMap DAList.empty \<and>
         LambdaRequest.Headers e = MakeMap DAList.empty \<and>
         LambdaRequest.MultiValueHeaders e = MakeMap DAList.empty"
proof -
  have q: "entries (Query (URL req)) = []"
    using assms(1) by (simp add: Query_def DAList.empty.rep_eq)
  show ?thesis
    using q assms(2)
    by (simp add: envelope_fields [OF assms(3)] valuesToMap_def valuesToMultiMap_def
        headersToMap_def headersToMultiMap_def)
qed

theorem envelope_empty_maps_witness:
  "QueryPairs (URL emptyRequest) = [] \<and> entries (Header emptyRequest) = [] \<and>
   (\<exists>e. envelope emptyRequest = Inr e \<and>
      QueryStringParameters e = MakeMap DAList.empty \<and>
      MultiValueQueryStringParameters e = MakeMap DAList.empty \<and>
      LambdaRequest.Headers e = MakeMap DAList.empty \<and>
      LambdaRequest.MultiValueHeaders e = MakeMap DAList.empty \<and>
      QueryStringParameters e \<noteq> NilMap \<and> LambdaRequest.MultiValueHeaders e \<noteq> NilMap)"
proof -
  have q: "QueryPairs (URL emptyRequest) = []" and h: "entries (Header emptyRequest) = []"
    by (simp_all add: emptyRequest_def)
  obtain e where e: "envelope emptyRequest = Inr e"
    by (auto simp: envelope_def bodyToBase64_def emptyRequest_def)
  from envelope_empty_maps [OF q h e] q h e show ?thesis by auto
qed

text \<open>
  Claim C3. For every inbound request whose declared body length is not zero, all the chunks
  of the body are read, the envelope's body is the base64 encoding of their concatenation
  and \<open>isBase64Encoded\<close> is true; for a declared length of zero the body is the empty string
  and the flag is false. (A read that fails is a panic: no envelope is built.)
\<close>

theorem envelope_body:
  "(ContentLength req \<noteq> 0 \<and> Request.Body req = Reader chunks None \<longrightarrow>
      bodyToBase64 req = Inr (True, EncodeToString (concat chunks)) \<and>
      (\<exists>e. envelope req = Inr e \<and> LambdaRequest.Body e = EncodeToString (concat chunks) \<and>
           LambdaRequest.IsBase64Encoded e)) \<and>
   (ContentLength req = 0 \<longrightarrow>
      bodyToBase64 req = Inr (False, []) \<and>
      (\<exists>e. envelope req = Inr e \<and> LambdaRequest.Body e = [] \<and>
           \<not> LambdaRequest.IsBase64Encoded e)) \<and>
   (ContentLength req \<noteq> 0 \<and> Request.Body req = Reader chunks (Some err) \<longrightarrow>
      bodyToBase64 req = Inl err \<and> envelope req = Inl err)"
  by (simp add: envelope_def bodyToBase64_def)

theorem envelope_body_witness:
  "ContentLength testRequest \<noteq> 0 \<and>
   Request.Body testRequest = Reader [''This is the body''] None \<and>
   bodyToBase64 testRequest = Inr (True, ''VGhpcyBpcyB0aGUgYm9keQ=='') \<and>
   (\<exists>e. envelope testRequest = Inr e \<and> LambdaRequest.Body e = ''VGhpcyBpcyB0aGUgYm9keQ=='' \<and>
        LambdaRequest.IsBase64Encoded e) \<and>
   ContentLength emptyRequest = 0 \<and>
   bodyToBase64 emptyRequest = Inr (False, []) \<and>
   (\<exists>e. envelope emptyRequest = Inr e \<and> LambdaRequest.Body e = [] \<and>
        \<not> LambdaRequest.IsBase64Encoded e)"
proof -
  have c: "ContentLength testRequest \<noteq> 0"
    and b: "Request.Body testRequest = Reader [''This is the body''] None"
    and z: "ContentLength emptyRequest = 0"
    by (simp_all add: testRequest_def emptyRequest_def)
  have enc: "EncodeToString (concat [''This is the body'']) = ''VGhpcyBpcyB0aGUgYm9keQ==''"
    by (simp add: EncodeToString_def encodeStd_def)
  from envelope_body [of testRequest "[''This is the body'']"]
    envelope_body [of emptyRequest "[]"] c b z
  show ?thesis unfolding enc by simp
qed

subsection \<open>Headers\<close>

text \<open>
  Claim C4. A header name with exactly one value is in \<open>headers\<close> with that value and not
  in \<open>multiValueHeaders\<close>; a name with two or more values is in \<open>multiValueHeaders\<close> with
  all its values in order and not in \<open>headers\<close>; a name with no value is in neither. The
  values are stored as they are.
\<close>

theorem headers_partition:
  assumes "index h n = Some headers"
  shows "(length headers = 1 \<longrightarrow>
            index (headersToMap h) n = Some (headers ! 0) \<and>
            index (headersToMultiMap h) n = None) \<and>
         (2 \<le> length headers \<longrightarrow>
            index (headersToMultiMap h) n = Some headers \<and>
            index (headersToMap h) n = None) \<and>
         (length headers = 0 \<longrightarrow>
            index (headersToMap h) n = None \<and> index (headersToMultiMap h) n = None)"
  using assms by (simp add: index_headersToMap index_headersToMultiMap)

theorem headers_partition_witness:
  "index testHeader ''Content-Type'' = Some [''text/plain''] \<and>
   index (headersToMap testHeader) ''Content-Type'' = Some ''text/plain'' \<and>
   index (headersToMultiMap testHeader) ''Content-Type'' = None \<and>
   index testHeader ''X-Test'' = Some [''foo'', ''foobar''] \<and>
   index (headersToMultiMap testHeader) ''X-Test'' = Some [''foo'', ''foobar''] \<and>
   index (headersToMap testHeader) ''X-Test'' = None"
proof -
  have a: "index testHeader ''Content-Type'' = Some [''text/plain'']"
    and b: "index testHeader ''X-Test'' = Some [''foo'', ''foobar'']"
    by (simp_all add: index_testHeader)
  from headers_partition [OF a] headers_partition [OF b] a b show ?thesis by simp
qed

subsection \<open>Value coercion\<close>











text \<open>
  What the two functions do on the slices they accept: a slice whose elements are of one of
  the twelve kinds listed in \<^verbatim>\<open>valuesToStrings\<close> is converted element by element, in order,
  and collapses to a single string exactly when it has one element; a slice of any other
  element kind, and anything that is not a slice, is rejected by \<^verbatim>\<open>valuesToStrings\<close>.
\<close>

lemma valueToString_valid:
  assumes "KindOf (TypeOf x) \<in> scalarKinds"
  shows "snd (valueToString x)"
proof (cases x)
  case (OpaqueV k)
  with assms show ?thesis by (cases k) (simp_all add: scalarKinds_def)
qed (use assms in \<open>simp_all add: scalarKinds_def valueToString.simps\<close>)

lemma valuesToStrings_accepted:
  assumes "well_typed (SliceV et xs)"
    and "KindOf et \<in> set [KInt, KInt8, KInt16, KInt32, KInt64, KUint, KUint8, KUint16, KUint32,
                            KFloat32, KFloat64, KString]"
  shows "valuesToStrings (SliceV et xs) = (map (fst \<circ> valueToString) xs, True)"
proof -
  from assms(2) have "KindOf et \<in> scalarKinds" by (auto simp: scalarKinds_def)
  with assms(1) have "\<forall>x \<in> set xs. snd (valueToString x)"
    by (auto intro: valueToString_valid)
  then have "filter snd (map valueToString xs) = map valueToString xs"
    by (induction xs) simp_all
  with assms(2) show ?thesis
    by (subst valuesToStrings.simps) simp
qed

lemma valuesToStrings_rejected:
  "KindOf et \<notin> set [KInt, KInt8, KInt16, KInt32, KInt64, KUint, KUint8, KUint16, KUint32,
                       KFloat32, KFloat64, KString] \<Longrightarrow>
   valuesToStrings (SliceV et xs) = ([], False)"
  "KindOf (TypeOf f) \<noteq> KSlice \<Longrightarrow> valuesToStrings f = ([], False)"
  by (subst valuesToStrings.simps, simp)+

lemma valueToString_slice:
  assumes "well_typed (SliceV et xs)"
    and "KindOf et \<in> set [KInt, KInt8, KInt16, KInt32, KInt64, KUint, KUint8, KUint16, KUint32,
                            KFloat32, KFloat64, KString]"
  shows "valueToString (SliceV et xs) =
           (if length xs = 1 then (fst (valueToString (xs ! 0)), True) else ([], False))"
  by (subst valueToString.simps) (simp add: valuesToStrings_accepted [OF assms])



subsection \<open>The handler\<close>

text \<open>
  \<^verbatim>\<open>invokeFunction\<close> makes no call on the response writer, and the second half of the handler
  makes its calls on the response writer only.
\<close>

lemma written_append: "written (xs @ ys) = written xs @ written ys"
  by (induction xs rule: written.induct) simp_all

lemma written_setHeaders: "written (setHeaders hs) = []"
  by (induction hs rule: setHeaders.induct) simp_all

lemma written_HeaderAdd: "written (map (HeaderAdd key) vals) = []"
  by (induction vals) simp_all

lemma written_addHeaders: "written (addHeaders hs) = []"
  by (induction hs rule: addHeaders.induct) (simp_all add: written_append written_HeaderAdd)

lemma invokeFunction_not_on_writer:
  "invokeFunction json a request = (calls, r) \<Longrightarrow> filter on_writer calls = [] \<and> written calls = []"
  by (auto simp: invokeFunction_def Let_def split: sum.splits option.splits if_splits)

lemma respond_on_writer: "filter on_writer (fst (respond rw resp)) = fst (respond rw resp)"
proof -
  have s: "filter on_writer (setHeaders hs) = setHeaders hs" for hs
    by (induction hs rule: setHeaders.induct) simp_all
  have m: "filter on_writer (map (HeaderAdd key) vals) = map (HeaderAdd key) vals" for key vals
    by (induction vals) simp_all
  have a: "filter on_writer (addHeaders hs) = addHeaders hs" for hs
    by (induction hs rule: addHeaders.induct) (simp_all add: m)
  show ?thesis
    by (simp add: respond_def Let_def s a split: sum.splits option.splits)
qed

lemma ServeHTTP_respond:
  assumes "envelope req = Inr request" and "invokeFunction json a request = (calls, Inr resp)"
  shows "ServeHTTP json a rw req = (calls @ fst (respond rw resp), snd (respond rw resp))"
  using assms by (simp add: ServeHTTP_def split: prod.splits)

text \<open>
  Claim C7. When the call of the Lambda client fails, or answers with a status other than
  200 (a missing status included), the handler ends in a panic after that one call of the
  client: the call is not repeated, and no call is made on the response writer, so no
  header, status or byte of the response has been written.
\<close>

theorem invoke_failure_aborts:
  assumes "envelope req = Inr request" and "Marshal json request = Inr payload"
    and "input = \<lparr> FunctionName = functionArn a, InvokeInput.Payload = payload \<rparr>"
    and "(\<exists>err. client a input = Inl err) \<or>
         (\<exists>result. client a input = Inr result \<and> InvokeOutput.StatusCode result \<noteq> Some 200)"
  shows "\<exists>err. ServeHTTP json a rw req = ([Invoke input], Panicked err)"
  using assms
  by (auto simp: ServeHTTP_def invokeFunction_def Let_def split: option.splits)

text \<open>The test's request, against a client that answers with the status 500.\<close>

theorem invoke_failure_aborts_witness:
  "\<exists>request payload input result.
     envelope testRequest = Inr request \<and>
     Marshal (stubJSON response500) request = Inr payload \<and>
     input = \<lparr> FunctionName = functionArn (stubPlugin 500), InvokeInput.Payload = payload \<rparr> \<and>
     client (stubPlugin 500) input = Inr result \<and> InvokeOutput.StatusCode result \<noteq> Some 200 \<and>
     ServeHTTP (stubJSON response500) (stubPlugin 500) recorder testRequest =
       ([Invoke input], Panicked (Error ''call to lambda failed'')) \<and>
     filter on_writer (fst (ServeHTTP (stubJSON response500) (stubPlugin 500) recorder testRequest)) = []"
proof -
  obtain request where e: "envelope testRequest = Inr request"
    using envelope_testRequest by blast
  define input where
    "input = \<lparr> FunctionName = functionArn (stubPlugin 500), InvokeInput.Payload = ''payload'' \<rparr>"
  define result where
    "result = \<lparr> InvokeOutput.StatusCode = Some 500, InvokeOutput.Payload = ''result'' \<rparr>"
  have m: "Marshal (stubJSON response500) request = Inr ''payload''"
    by (simp add: stubJSON_def)
  have c: "client (stubPlugin 500) input = Inr result"
    and s: "InvokeOutput.StatusCode result \<noteq> Some 200"
    by (simp_all add: stubPlugin_def result_def)
  from c s have f: "(\<exists>err. client (stubPlugin 500) input = Inl err) \<or>
      (\<exists>result. client (stubPlugin 500) input = Inr result \<and> InvokeOutput.StatusCode result \<noteq> Some 200)"
    by blast
  from invoke_failure_aborts [OF e m input_def f, of recorder]
  obtain err where
    r: "ServeHTTP (stubJSON response500) (stubPlugin 500) recorder testRequest = ([Invoke input], Panicked err)"
    by blast
  have "ServeHTTP (stubJSON response500) (stubPlugin 500) recorder testRequest =
          ([Invoke input], Panicked (Error ''call to lambda failed''))"
    using e by (simp add: ServeHTTP_def invokeFunction_def stubJSON_def stubPlugin_def input_def)
  with e m c s input_def r show ?thesis by auto
qed

text \<open>
  Claim C8. When \<open>isBase64Encoded\<close> of the response is true, the body is decoded and the
  decoded bytes are what \<^verbatim>\<open>rw.Write\<close> is given, as the last call of the handler; when the
  decoding fails the handler panics with that error, before any call on the response
  writer. When the flag is false the body is written as it is. (The write is reached when
  \<^verbatim>\<open>rw.WriteHeader\<close> does not panic on the status code.)
\<close>

theorem response_body_decoding:
  assumes "envelope req = Inr request" and "invokeFunction json a request = (calls, Inr resp)"
  shows "(LambdaResponse.IsBase64Encoded resp \<and>
            DecodeString (LambdaResponse.Body resp) = Inl err \<longrightarrow>
            ServeHTTP json a rw req = (calls, Panicked err) \<and>
            filter on_writer (fst (ServeHTTP json a rw req)) = []) \<and>
         (LambdaResponse.IsBase64Encoded resp \<and>
            DecodeString (LambdaResponse.Body resp) = Inr buf \<and>
            WriteHeaderPanic rw (LambdaResponse.StatusCode resp) = None \<longrightarrow>
            written (fst (ServeHTTP json a rw req)) = buf \<and>
            last (fst (ServeHTTP json a rw req)) = Write buf) \<and>
         (\<not> LambdaResponse.IsBase64Encoded resp \<and>
            WriteHeaderPanic rw (LambdaResponse.StatusCode resp) = None \<longrightarrow>
            written (fst (ServeHTTP json a rw req)) = LambdaResponse.Body resp \<and>
            last (fst (ServeHTTP json a rw req)) = Write (LambdaResponse.Body resp))"
proof -
  note s = ServeHTTP_respond [OF assms]
  note c = invokeFunction_not_on_writer [OF assms(2)]
  show ?thesis
    by (simp add: s c respond_def Let_def written_append written_setHeaders written_addHeaders)
qed

text \<open>
  The body \<open>aGVsbG8=\<close> is written as \<open>hello\<close> when flagged as encoded and as it is when not;
  \<open>aGVsbG8\<close>, which lacks its padding, makes the handler panic.
\<close>

theorem response_body_decoding_witness:
  "(\<exists>request calls.
      envelope testRequest = Inr request \<and>
      invokeFunction (stubJSON (responseHello True ''aGVsbG8='')) (stubPlugin 200) request =
        (calls, Inr (responseHello True ''aGVsbG8=''))) \<and>
   DecodeString ''aGVsbG8='' = Inr ''hello'' \<and>
   written (fst (ServeHTTP (stubJSON (responseHello True ''aGVsbG8='')) (stubPlugin 200) recorder
              testRequest)) = ''hello'' \<and>
   DecodeString ''aGVsbG8'' = Inl CorruptInputError \<and>
   snd (ServeHTTP (stubJSON (responseHello True ''aGVsbG8'')) (stubPlugin 200) recorder
          testRequest) = Panicked CorruptInputError \<and>
   written (fst (ServeHTTP (stubJSON (responseHello False ''aGVsbG8='')) (stubPlugin 200) recorder
              testRequest)) = ''aGVsbG8=''"
proof -
  obtain request where e: "envelope testRequest = Inr request"
    using envelope_testRequest by blast
  define calls where
    "calls = [Invoke \<lparr> FunctionName = functionArn (stubPlugin 200), InvokeInput.Payload = ''payload'' \<rparr>]"
  have i: "invokeFunction (stubJSON resp) (stubPlugin 200) request = (calls, Inr resp)" for resp
    by (simp add: invokeFunction_def stubJSON_def stubPlugin_def calls_def)
  have d1: "DecodeString ''aGVsbG8='' = Inr ''hello''"
    by (simp add: DecodeString_def decodeMap_def encodeStd_def quantum_def newline_def byte_def)
  have d2: "DecodeString ''aGVsbG8'' = Inl CorruptInputError"
    by (simp add: DecodeString_def decodeMap_def encodeStd_def quantum_def newline_def byte_def)
  have f: "LambdaResponse.IsBase64Encoded (responseHello b body) = b"
    "LambdaResponse.Body (responseHello b body) = body"
    "WriteHeaderPanic recorder (LambdaResponse.StatusCode (responseHello b body)) = None" for b body
    by (simp_all add: responseHello_def recorder_def)
  from response_body_decoding
      [OF e i [of "responseHello True ''aGVsbG8=''"], where rw = recorder and buf = "''hello''"]
    response_body_decoding
      [OF e i [of "responseHello True ''aGVsbG8''"], where rw = recorder and err = CorruptInputError]
    response_body_decoding
      [OF e i [of "responseHello False ''aGVsbG8=''"], where rw = recorder]
    e i d1 d2
  show ?thesis by (auto simp: f)
qed

text \<open>
  Claim C10. The handler never calls the next handler: replacing it by any other handler
  changes neither the calls the handler makes nor how it ends. The calls on the response
  writer are those of the second half of the handler on the response of the function, and
  there is none when the function gave no response.
\<close>

theorem next_handler_never_invoked:
  "ServeHTTP json (a\<lparr>nextHandler := h\<rparr>) rw req = ServeHTTP json a rw req \<and>
   (\<forall>request calls resp.
      envelope req = Inr request \<and> invokeFunction json a request = (calls, Inr resp) \<longrightarrow>
      filter on_writer (fst (ServeHTTP json a rw req)) = fst (respond rw resp) \<and>
      snd (ServeHTTP json a rw req) = snd (respond rw resp)) \<and>
   (\<forall>request calls err.
      envelope req = Inr request \<and> invokeFunction json a request = (calls, Inl err) \<longrightarrow>
      filter on_writer (fst (ServeHTTP json a rw req)) = []) \<and>
   (\<forall>err. envelope req = Inl err \<longrightarrow> fst (ServeHTTP json a rw req) = [])"
proof -
  have inv: "invokeFunction json (a\<lparr>nextHandler := h\<rparr>) = invokeFunction json a"
    by (simp add: invokeFunction_def fun_eq_iff Let_def split: sum.splits)
  have "ServeHTTP json (a\<lparr>nextHandler := h\<rparr>) rw req = ServeHTTP json a rw req"
    unfolding ServeHTTP_def inv ..
  moreover have "filter on_writer (fst (ServeHTTP json a rw req)) = fst (respond rw resp) \<and>
      snd (ServeHTTP json a rw req) = snd (respond rw resp)"
    if "envelope req = Inr request" and "invokeFunction json a request = (calls, Inr resp)"
    for request calls resp
    using invokeFunction_not_on_writer [OF that(2)]
    by (simp add: ServeHTTP_respond [OF that] respond_on_writer)
  moreover have "filter on_writer (fst (ServeHTTP json a rw req)) = []"
    if "envelope req = Inr request" and "invokeFunction json a request = (calls, Inl err)"
    for request calls err
    using invokeFunction_not_on_writer [OF that(2)] that by (simp add: ServeHTTP_def)
  moreover have "fst (ServeHTTP json a rw req) = []" if "envelope req = Inl err" for err
    using that by (simp add: ServeHTTP_def)
  ultimately show ?thesis by blast
qed

text \<open>
  With a next handler that would write \<open>next\<close>, the response to the test's request is still
  the status 500 and an empty body, from the function's response.
\<close>

theorem next_handler_never_invoked_witness:
  "\<exists>request calls.
     envelope testRequest = Inr request \<and>
     invokeFunction (stubJSON response500) (stubPlugin 200) request = (calls, Inr response500) \<and>
     ServeHTTP (stubJSON response500)
       ((stubPlugin 200)\<lparr>nextHandler := (\<lambda>rw req. ([Write ''next''], Returned))\<rparr>) recorder testRequest =
     ServeHTTP (stubJSON response500) (stubPlugin 200) recorder testRequest \<and>
     filter on_writer (fst (ServeHTTP (stubJSON response500) (stubPlugin 200) recorder testRequest)) =
       [WriteHeader 500, Write []] \<and>
     snd (ServeHTTP (stubJSON response500) (stubPlugin 200) recorder testRequest) = Returned"
proof -
  obtain request where e: "envelope testRequest = Inr request"
    using envelope_testRequest by blast
  define calls where
    "calls = [Invoke \<lparr> FunctionName = functionArn (stubPlugin 200), InvokeInput.Payload = ''payload'' \<rparr>]"
  have i: "invokeFunction (stubJSON response500) (stubPlugin 200) request = (calls, Inr response500)"
    by (simp add: invokeFunction_def stubJSON_def stubPlugin_def calls_def)
  have r: "respond recorder response500 = ([WriteHeader 500, Write []], Returned)"
    by (simp add: respond_def response500_def recorder_def)
  from next_handler_never_invoked
    [where json = "stubJSON response500" and a = "stubPlugin 200"
       and h = "\<lambda>rw req. ([Write ''next''], Returned)" and rw = recorder and req = testRequest]
    e i
  show ?thesis by (auto simp: r)
qed

end
